theory Spec2Isabelle
  imports Main
begin

section \<open>Python strings\<close>

text \<open>
  The converter works on the decoded text of a RINEX file.  A character of the model is a
  code point below 256; the source slices by column, strips white space and splits on it,
  so these operations of \<open>str\<close> are written out here.  All slices of the source have
  constant, non-negative bounds, for which \<open>s[a:b]\<close> never raises.
\<close>

definition is_space :: "char \<Rightarrow> bool" where
  \<comment> \<open>\<open>str.isspace\<close> on one character: TAB..CR, FS..US, blank, NEL and NBSP.\<close>
  "is_space c = (let n = (of_char c :: nat) in
     (9 \<le> n \<and> n \<le> 13) \<or> (28 \<le> n \<and> n \<le> 32) \<or> n = 133 \<or> n = 160)"

definition is_digit :: "char \<Rightarrow> bool" where
  "is_digit c = (let n = (of_char c :: nat) in 48 \<le> n \<and> n \<le> 57)"

definition lstrip :: "string \<Rightarrow> string" where
  "lstrip s = dropWhile is_space s"

definition rstrip :: "string \<Rightarrow> string" where
  "rstrip s = rev (dropWhile is_space (rev s))"

definition strip :: "string \<Rightarrow> string" where
  "strip s = rstrip (lstrip s)"

definition slice :: "nat \<Rightarrow> nat \<Rightarrow> string \<Rightarrow> string" where
  \<comment> \<open>\<open>s[a:b]\<close>\<close>
  "slice a b s = take (b - a) (drop a s)"

definition startswith :: "string \<Rightarrow> string \<Rightarrow> bool" where
  \<comment> \<open>\<open>s.startswith(p)\<close>\<close>
  "startswith s p = (take (length p) s = p)"

definition ljust :: "nat \<Rightarrow> string \<Rightarrow> string" where
  \<comment> \<open>\<open>s.ljust(n)\<close>, also the format \<open>{s:ns}\<close>\<close>
  "ljust n s = s @ replicate (n - length s) CHR '' ''"

definition rjust :: "nat \<Rightarrow> string \<Rightarrow> string" where
  \<comment> \<open>the format \<open>{s:>ns}\<close>\<close>
  "rjust n s = replicate (n - length s) CHR '' '' @ s"

fun split_from :: "string \<Rightarrow> string \<Rightarrow> string list" where
  \<comment> \<open>\<open>str.split()\<close> with the token read so far as first argument\<close>
  "split_from cur [] = (if cur = [] then [] else [cur])"
| "split_from cur (c # cs) =
     (if is_space c then (if cur = [] then split_from [] cs else cur # split_from [] cs)
      else split_from (cur @ [c]) cs)"

definition split :: "string \<Rightarrow> string list" where
  "split s = split_from [] s"

subsection \<open>Integers: \<open>int(s)\<close> and the format \<open>{n:wd}\<close>\<close>

fun digit_group :: "string \<Rightarrow> bool" where
  \<comment> \<open>decimal digits, single underscores allowed between two digits\<close>
  "digit_group [] = False"
| "digit_group [c] = is_digit c"
| "digit_group (c # d # cs) =
     (is_digit c \<and> (if d = CHR ''_'' then digit_group cs else digit_group (d # cs)))"

definition digit_val :: "char \<Rightarrow> int" where
  "digit_val c = int (of_char c) - 48"

definition dec_value :: "string \<Rightarrow> int" where
  "dec_value s = foldl (\<lambda>acc c. if c = CHR ''_'' then acc else 10 * acc + digit_val c) 0 s"

definition py_int :: "string \<Rightarrow> int option" where
  \<comment> \<open>\<open>int(s)\<close>; \<open>None\<close> stands for \<open>ValueError\<close>\<close>
  "py_int s =
     (let t = strip s in
      case t of
        [] \<Rightarrow> None
      | c # r \<Rightarrow>
          if c = CHR ''-'' then (if digit_group r then Some (- dec_value r) else None)
          else if c = CHR ''+'' then (if digit_group r then Some (dec_value r) else None)
          else if digit_group t then Some (dec_value t) else None)"

fun str_nat :: "nat \<Rightarrow> string" where
  "str_nat n = (if n < 10 then [''0123456789'' ! n]
                else str_nat (n div 10) @ [''0123456789'' ! (n mod 10)])"

declare str_nat.simps [simp del]

definition str_int :: "int \<Rightarrow> string" where
  "str_int i = (if i < 0 then CHR ''-'' # str_nat (nat (- i)) else str_nat (nat i))"

definition fmt_d :: "nat \<Rightarrow> int \<Rightarrow> string" where
  \<comment> \<open>the format \<open>{i:wd}\<close>: decimal, right-justified in at least \<open>w\<close> columns\<close>
  "fmt_d w i = rjust w (str_int i)"

subsection \<open>Floats\<close>

text \<open>
  Floating point numbers are outside the embedding.  The converter only parses them with
  \<open>float(s)\<close>, stores them, and prints them with a fixed-point format, so the model takes
  these operations (and the two literals \<open>0.0\<close> and \<open>30.0\<close>) as a parameter and every
  theorem holds whatever they are.
\<close>

record 'f float_ops =
  py_float :: "string \<Rightarrow> 'f option"  \<comment> \<open>\<open>float(s)\<close>; \<open>None\<close> stands for \<open>ValueError\<close>\<close>
  fmt_f :: "nat \<Rightarrow> nat \<Rightarrow> 'f \<Rightarrow> string"  \<comment> \<open>the format \<open>{x:w.pf}\<close>\<close>
  lit_0 :: "'f"  \<comment> \<open>\<open>0.0\<close>\<close>
  lit_30 :: "'f"  \<comment> \<open>\<open>30.0\<close>\<close>

section \<open>The translation table\<close>

definition OBS_MAPPING_items :: "(string \<times> string) list" where
  "OBS_MAPPING_items =
    [(''C1C'', ''C1''), (''C1S'', ''C1''), (''C1L'', ''C1''), (''C1X'', ''C1''),
     (''C1P'', ''P1''), (''C1W'', ''P1''),
     (''L1C'', ''L1''), (''L1S'', ''L1''), (''L1L'', ''L1''), (''L1X'', ''L1''),
     (''L1P'', ''L1''), (''L1W'', ''L1''),
     (''D1C'', ''D1''), (''D1S'', ''D1''), (''D1L'', ''D1''), (''D1X'', ''D1''),
     (''S1C'', ''S1''), (''S1S'', ''S1''), (''S1L'', ''S1''), (''S1X'', ''S1''),
     (''C2C'', ''C2''), (''C2S'', ''C2''), (''C2L'', ''C2''), (''C2X'', ''C2''),
     (''C2P'', ''P2''), (''C2W'', ''P2''),
     (''L2C'', ''L2''), (''L2S'', ''L2''), (''L2L'', ''L2''), (''L2X'', ''L2''),
     (''L2P'', ''L2''), (''L2W'', ''L2''),
     (''D2C'', ''D2''), (''D2S'', ''D2''), (''D2L'', ''D2''), (''D2X'', ''D2''),
     (''S2C'', ''S2''), (''S2S'', ''S2''), (''S2L'', ''S2''), (''S2X'', ''S2''),
     (''C5I'', ''C5''), (''C5Q'', ''C5''), (''C5X'', ''C5''),
     (''L5I'', ''L5''), (''L5Q'', ''L5''), (''L5X'', ''L5''),
     (''D5I'', ''D5''), (''D5Q'', ''D5''), (''D5X'', ''D5''),
     (''S5I'', ''S5''), (''S5Q'', ''S5''), (''S5X'', ''S5'')]"

definition OBS_MAPPING :: "string \<rightharpoonup> string" where
  \<comment> \<open>\<open>OBS_MAPPING.get(k, None)\<close>\<close>
  "OBS_MAPPING = map_of OBS_MAPPING_items"

section \<open>The parsed header\<close>

record receiver =
  rec_serial :: string
  rec_type :: string
  rec_version :: string

record 'f antenna =
  ant_serial :: string
  ant_type :: string
  ant_delta :: "'f \<times> 'f \<times> 'f"

record 'f header =
  version :: string
  obs_file_type :: string  \<comment> \<open>key \<open>'type'\<close>\<close>
  system :: string
  marker_name :: string
  marker_number :: string
  observer :: string
  agency :: string
  receiver :: receiver
  antenna :: "'f antenna"
  approx_pos :: "'f \<times> 'f \<times> 'f"
  obs_types :: "string \<rightharpoonup> string list"
  interval :: "'f"
  time_first :: string
  time_last :: string
  header_end_line :: nat

section \<open>\<open>_build_obs_type_mapping\<close>\<close>

definition dict_get :: "('k \<rightharpoonup> 'v option) \<Rightarrow> 'k \<Rightarrow> 'v option" where
  \<comment> \<open>\<open>d.get(k)\<close> on a dictionary whose values may be \<open>None\<close>\<close>
  "dict_get d k = (case d k of None \<Rightarrow> None | Some v \<Rightarrow> v)"

definition gps_types_of :: "('f, 'a) header_scheme \<Rightarrow> string list" where
  \<comment> \<open>\<open>header['obs_types'].get('G', [])\<close>\<close>
  "gps_types_of h = (case obs_types h ''G'' of None \<Rightarrow> [] | Some ts \<Rightarrow> ts)"

fun mapping_loop ::
  "nat \<Rightarrow> string list \<Rightarrow> string list \<Rightarrow> string set \<Rightarrow> (nat \<rightharpoonup> string option)
   \<Rightarrow> string list \<times> (nat \<rightharpoonup> string option)" where
  \<comment> \<open>the loop over \<open>enumerate(gps_types)\<close>, from position \<open>idx\<close> on\<close>
  "mapping_loop idx [] rnx2_types seen mapping = (rnx2_types, mapping)"
| "mapping_loop idx (rnx3_type # rest) rnx2_types seen mapping =
     (case OBS_MAPPING rnx3_type of
        None \<Rightarrow> mapping_loop (Suc idx) rest rnx2_types seen (mapping(idx \<mapsto> None))
      | Some rnx2_type \<Rightarrow>
          if rnx2_type \<noteq> [] \<and> rnx2_type \<notin> seen
          then mapping_loop (Suc idx) rest (rnx2_types @ [rnx2_type]) (insert rnx2_type seen)
                 (mapping(idx \<mapsto> Some rnx2_type))
          else mapping_loop (Suc idx) rest rnx2_types seen (mapping(idx \<mapsto> Some rnx2_type)))"

definition build_obs_type_mapping ::
  "('f, 'a) header_scheme \<Rightarrow> string list \<times> (nat \<rightharpoonup> string option)" where
  "build_obs_type_mapping h = mapping_loop 0 (gps_types_of h) [] {} Map.empty"

section \<open>\<open>_parse_rinex3_header\<close>\<close>

datatype py_error = ValueError | IndexError

definition label_of :: "string \<Rightarrow> string" where
  \<comment> \<open>\<open>line[60:].strip() if len(line) > 60 else ''\<close>\<close>
  "label_of line = (if length line > 60 then strip (drop 60 line) else [])"

definition default_header :: "'f float_ops \<Rightarrow> 'f header" where
  "default_header ops =
     \<lparr> version = ''3.04'', obs_file_type = ''O'', system = ''M'', marker_name = [],
       marker_number = [], observer = [], agency = [],
       receiver = \<lparr> rec_serial = [], rec_type = [], rec_version = [] \<rparr>,
       antenna = \<lparr> ant_serial = [], ant_type = [],
                   ant_delta = (lit_0 ops, lit_0 ops, lit_0 ops) \<rparr>,
       approx_pos = (lit_0 ops, lit_0 ops, lit_0 ops),
       obs_types = Map.empty, interval = lit_30 ops, time_first = [], time_last = [],
       header_end_line = 0 \<rparr>"

definition float3 :: "'f float_ops \<Rightarrow> string \<Rightarrow> ('f \<times> 'f \<times> 'f) option" where
  \<comment> \<open>the three \<open>float\<close> calls of a \<open>try\<close> block on columns 0-14, 14-28, 28-42;
      \<open>None\<close> when one of them raises \<open>ValueError\<close>\<close>
  "float3 ops line =
     (case py_float ops (slice 0 14 line) of None \<Rightarrow> None
      | Some x \<Rightarrow>
     (case py_float ops (slice 14 28 line) of None \<Rightarrow> None
      | Some y \<Rightarrow>
     (case py_float ops (slice 28 42 line) of None \<Rightarrow> None
      | Some z \<Rightarrow> Some (x, y, z))))"

definition py_upto :: "int \<Rightarrow> 'a list \<Rightarrow> 'a list" where
  \<comment> \<open>\<open>xs[:n]\<close>; a negative \<open>n\<close> counts from the end\<close>
  "py_upto n xs = (if 0 \<le> n then take (nat n) xs else take (length xs - nat (- n)) xs)"

function continuation_loop ::
  "string list \<Rightarrow> nat \<Rightarrow> string list \<Rightarrow> int \<Rightarrow> nat \<times> string list" where
  \<comment> \<open>the inner \<open>while\<close> of the \<open>SYS / # / OBS TYPES\<close> branch; returns \<open>i\<close> and \<open>obs_types\<close>\<close>
  "continuation_loop lines i obs num_obs =
     (if int (length obs) < num_obs \<and> i + 1 < length lines then
        (let next_line = lines ! (i + 1) in
         if label_of next_line = ''SYS / # / OBS TYPES''
         then continuation_loop lines (i + 1) (obs @ split (slice 7 60 next_line)) num_obs
         else (i + 1, obs))
      else (i, obs))"
  by pat_completeness auto
termination
  by (relation "measure (\<lambda>(lines, i, obs, num_obs). length lines - i)") auto

declare continuation_loop.simps [simp del]

definition header_step ::
  "'f float_ops \<Rightarrow> string list \<Rightarrow> nat \<Rightarrow> 'f header \<Rightarrow> py_error + (bool \<times> nat \<times> 'f header)" where
  \<comment> \<open>the body of the outer \<open>while\<close> up to, and without, its final \<open>i += 1\<close>, for
      \<open>i < len(lines)\<close>: an exception, or whether the loop is left by \<open>break\<close>, with the
      values of \<open>i\<close> and \<open>header\<close>\<close>
  "header_step ops lines i header =
     (let line = lines ! i; label = label_of line in
      if label = ''RINEX VERSION / TYPE'' then
        Inr (False, i, header\<lparr> version := strip (slice 0 9 line),
                               obs_file_type := strip (slice 20 21 line),
                               system := strip (slice 40 41 line) \<rparr>)
      else if label = ''MARKER NAME'' then
        Inr (False, i, header\<lparr> marker_name := strip (slice 0 60 line) \<rparr>)
      else if label = ''MARKER NUMBER'' then
        Inr (False, i, header\<lparr> marker_number := strip (slice 0 20 line) \<rparr>)
      else if label = ''OBSERVER / AGENCY'' then
        Inr (False, i, header\<lparr> observer := strip (slice 0 20 line),
                               agency := strip (slice 20 40 line) \<rparr>)
      else if label = ''REC # / TYPE / VERS'' then
        Inr (False, i, header\<lparr> receiver :=
               \<lparr> rec_serial = strip (slice 0 20 line), rec_type = strip (slice 20 40 line),
                 rec_version = strip (slice 40 60 line) \<rparr> \<rparr>)
      else if label = ''ANT # / TYPE'' then
        Inr (False, i, header\<lparr> antenna := (antenna header)
               \<lparr> ant_serial := strip (slice 0 20 line),
                 ant_type := strip (slice 20 40 line) \<rparr> \<rparr>)
      else if label = ''APPROX POSITION XYZ'' then
        (case float3 ops line of
           None \<Rightarrow> Inr (False, i, header)
         | Some xyz \<Rightarrow> Inr (False, i, header\<lparr> approx_pos := xyz \<rparr>))
      else if label = ''ANTENNA: DELTA H/E/N'' then
        (case float3 ops line of
           None \<Rightarrow> Inr (False, i, header)
         | Some hen \<Rightarrow>
             Inr (False, i, header\<lparr> antenna := (antenna header)\<lparr> ant_delta := hen \<rparr> \<rparr>))
      else if label = ''SYS / # / OBS TYPES'' then
        (let sys_code = slice 0 1 line in
         case py_int (strip (slice 3 6 line)) of
           None \<Rightarrow> Inl ValueError
         | Some num_obs \<Rightarrow>
             (case continuation_loop lines i (split (slice 7 60 line)) num_obs of
                (i', obs) \<Rightarrow>
                  Inr (False, i', header\<lparr> obs_types :=
                         (obs_types header)(sys_code \<mapsto> py_upto num_obs obs) \<rparr>)))
      else if label = ''INTERVAL'' then
        (case py_float ops (slice 0 10 line) of
           None \<Rightarrow> Inr (False, i, header)
         | Some x \<Rightarrow> Inr (False, i, header\<lparr> interval := x \<rparr>))
      else if label = ''TIME OF FIRST OBS'' then
        Inr (False, i, header\<lparr> time_first := strip (slice 0 60 line) \<rparr>)
      else if label = ''TIME OF LAST OBS'' then
        Inr (False, i, header\<lparr> time_last := strip (slice 0 60 line) \<rparr>)
      else if label = ''END OF HEADER'' then
        Inr (True, i, header\<lparr> header_end_line := i \<rparr>)
      else Inr (False, i, header))"

lemma continuation_loop_mono: "i \<le> fst (continuation_loop lines i obs num_obs)"
proof (induction lines i obs num_obs rule: continuation_loop.induct)
  case (1 lines i obs num_obs)
  show ?case
    using "1.IH" by (subst continuation_loop.simps) (auto simp: Let_def)
qed

lemma continuation_loop_le:
  "continuation_loop lines i obs num_obs = (i', obs') \<Longrightarrow> i \<le> i'"
  using continuation_loop_mono [of i lines obs num_obs] by simp

lemma header_step_mono:
  assumes "header_step ops lines i header = Inr (brk, i', header')"
  shows "i \<le> i'"
proof (cases "label_of (lines ! i) = ''SYS / # / OBS TYPES''")
  case True
  then show ?thesis
    using assms
    by (auto simp: header_step_def Let_def split: option.splits prod.splits
        dest: continuation_loop_le)
next
  case False
  then show ?thesis
    using assms by (auto simp: header_step_def Let_def split: option.splits if_splits)
qed

function header_loop ::
  "'f float_ops \<Rightarrow> string list \<Rightarrow> nat \<Rightarrow> 'f header \<Rightarrow> py_error + 'f header" where
  \<comment> \<open>\<open>while i < len(lines)\<close>\<close>
  "header_loop ops lines i header =
     (if i < length lines then
        (case header_step ops lines i header of
           Inl e \<Rightarrow> Inl e
         | Inr (brk, i', header') \<Rightarrow>
             if brk then Inr header' else header_loop ops lines (i' + 1) header')
      else Inr header)"
  by pat_completeness auto
termination
proof (relation "measure (\<lambda>(ops, lines, i, header). length lines - i)")
  show "wf (measure (\<lambda>(ops, lines, i, header). length lines - i))" by simp
next
  fix ops :: "'f float_ops" and lines i header x2 brk y i' header'
  assume "i < length lines" and "header_step ops lines i header = Inr x2"
    and "(brk, y) = x2" and "(i', header') = y"
  then have "i \<le> i'" using header_step_mono [of ops lines i header brk i' header'] by simp
  with \<open>i < length lines\<close>
  show "((ops, lines, i' + 1, header'), (ops, lines, i, header))
        \<in> measure (\<lambda>(ops, lines, i, header). length lines - i)"
    by simp
qed

declare header_loop.simps [simp del]

definition parse_rinex3_header :: "'f float_ops \<Rightarrow> string list \<Rightarrow> py_error + 'f header" where
  "parse_rinex3_header ops lines = header_loop ops lines 0 (default_header ops)"

section \<open>\<open>_write_rinex2_header\<close>\<close>

abbreviation nl :: string where
  "nl \<equiv> [CHR 0x0A]"

abbreviation blanks :: "nat \<Rightarrow> string" where
  "blanks n \<equiv> replicate n CHR '' ''"

definition obs_line :: "string list \<Rightarrow> nat \<Rightarrow> string" where
  \<comment> \<open>one pass of the loop over \<open>range(lines_needed)\<close>: the record written for \<open>line_idx\<close>\<close>
  "obs_line rnx2_types line_idx =
     (let num = length rnx2_types;
          start = line_idx * 9;
          end = min (start + 9) num
      in ljust 60 ((if line_idx = 0 then fmt_d 6 (int num) else blanks 6)
                   @ concat (map (\<lambda>j. rjust 6 (rnx2_types ! j)) [start..<end]))
         @ ''# / TYPES OF OBSERV'' @ nl)"

definition types_of_observ :: "string list \<Rightarrow> string list" where
  \<comment> \<open>the records written by the loop over \<open>range(lines_needed)\<close>, in order\<close>
  "types_of_observ rnx2_types =
     (let lines_needed = (length rnx2_types + 8) div 9
      in map (obs_line rnx2_types) [0..<lines_needed])"

definition write_rinex2_header :: "'f float_ops \<Rightarrow> 'f header \<Rightarrow> string list \<Rightarrow> string" where
  \<comment> \<open>the text written to \<open>f\<close>\<close>
  "write_rinex2_header ops header rnx2_types =
     (''     2.11           OBSERVATION DATA    '' @ ljust 20 ''G'' @ ''RINEX VERSION / TYPE'' @ nl)
     @ (ljust 20 ''pygamit-bridge'' @ blanks 20 @ blanks 20 @ ''PGM / RUN BY / DATE'' @ nl)
     @ (ljust 60 (marker_name header) @ ''MARKER NAME'' @ nl)
     @ (if marker_number header \<noteq> []
        then ljust 60 (marker_number header) @ ''MARKER NUMBER'' @ nl else [])
     @ (ljust 20 (observer header) @ ljust 40 (agency header) @ ''OBSERVER / AGENCY'' @ nl)
     @ (let r = receiver header in
        ljust 20 (rec_serial r) @ ljust 20 (rec_type r) @ ljust 20 (rec_version r)
        @ ''REC # / TYPE / VERS'' @ nl)
     @ (let a = antenna header in
        ljust 20 (ant_serial a) @ ljust 20 (ant_type a) @ blanks 20 @ ''ANT # / TYPE'' @ nl)
     @ (case approx_pos header of (x, y, z) \<Rightarrow>
        fmt_f ops 14 4 x @ fmt_f ops 14 4 y @ fmt_f ops 14 4 z @ blanks 18
        @ ''APPROX POSITION XYZ'' @ nl)
     @ (case ant_delta (antenna header) of (h, e, n) \<Rightarrow>
        fmt_f ops 14 4 h @ fmt_f ops 14 4 e @ fmt_f ops 14 4 n @ blanks 18
        @ ''ANTENNA: DELTA H/E/N'' @ nl)
     @ (''     1     1'' @ blanks 48 @ ''WAVELENGTH FACT L1/2'' @ nl)
     @ concat (types_of_observ rnx2_types)
     @ (fmt_f ops 10 3 (interval header) @ blanks 50 @ ''INTERVAL'' @ nl)
     @ (if time_first header \<noteq> []
        then ljust 60 (time_first header) @ ''TIME OF FIRST OBS'' @ nl else [])
     @ (if time_last header \<noteq> []
        then ljust 60 (time_last header) @ ''TIME OF LAST OBS'' @ nl else [])
     @ (blanks 60 @ ''END OF HEADER'' @ nl)"

section \<open>\<open>_convert_data\<close>\<close>

record 'f epoch =
  yr :: int
  mo :: int
  dy :: int
  hr :: int
  mn :: int
  sc :: "'f"
  flag :: int
  num_sats :: int

definition parse_epoch :: "'f float_ops \<Rightarrow> string \<Rightarrow> 'f epoch option" where
  \<comment> \<open>the \<open>try\<close> block on an epoch-start line; \<open>None\<close> when a conversion raises\<close>
  "parse_epoch ops line =
     (case py_int (slice 2 6 line) of None \<Rightarrow> None | Some yr' \<Rightarrow>
     (case py_int (slice 7 9 line) of None \<Rightarrow> None | Some mo' \<Rightarrow>
     (case py_int (slice 10 12 line) of None \<Rightarrow> None | Some dy' \<Rightarrow>
     (case py_int (slice 13 15 line) of None \<Rightarrow> None | Some hr' \<Rightarrow>
     (case py_int (slice 16 18 line) of None \<Rightarrow> None | Some mn' \<Rightarrow>
     (case py_float ops (slice 18 29 line) of None \<Rightarrow> None | Some sc' \<Rightarrow>
     (case py_int (slice 29 32 line) of None \<Rightarrow> None | Some flag' \<Rightarrow>
     (case py_int (slice 32 35 line) of None \<Rightarrow> None | Some num_sats' \<Rightarrow>
        Some \<lparr> yr = yr', mo = mo', dy = dy', hr = hr', mn = mn', sc = sc',
               flag = flag', num_sats = num_sats' \<rparr>))))))))"

definition slice_values :: "string list \<Rightarrow> string \<Rightarrow> string list" where
  \<comment> \<open>\<open>values\<close>: one 16-column field of \<open>sat_line\<close> for each of \<open>gps_types\<close>\<close>
  "slice_values gps_types sat_line =
     map (\<lambda>k. let start_pos = 3 + k * 16; end_pos = start_pos + 16
               in if start_pos < length sat_line then slice start_pos end_pos sat_line
                  else blanks 16)
         [0..<length gps_types]"

fun collect_sats ::
  "string list \<Rightarrow> string list \<Rightarrow> nat \<Rightarrow> nat \<Rightarrow> string list \<Rightarrow> (string \<rightharpoonup> string list)
   \<Rightarrow> nat \<times> string list \<times> (string \<rightharpoonup> string list)" where
  \<comment> \<open>the loop over \<open>range(num_sats)\<close> with the number of passes left as third argument;
      returns \<open>i\<close>, \<open>sats\<close> and \<open>sat_data\<close>\<close>
  "collect_sats lines gps_types 0 i sats sat_data = (i, sats, sat_data)"
| "collect_sats lines gps_types (Suc n) i sats sat_data =
     (if i + 1 \<ge> length lines then (i + 1, sats, sat_data)
      else
        (let sat_line = lines ! (i + 1); sat_id = strip (slice 0 3 sat_line) in
         if \<not> startswith sat_id ''G'' then collect_sats lines gps_types n (i + 1) sats sat_data
         else collect_sats lines gps_types n (i + 1) (sats @ [sat_id])
                (sat_data(sat_id \<mapsto> slice_values gps_types sat_line))))"

definition epoch_hdr :: "'f float_ops \<Rightarrow> 'f epoch \<Rightarrow> string list \<Rightarrow> string" where
  \<comment> \<open>the epoch header as written, with its final newline\<close>
  "epoch_hdr ops e sats =
     ('' '' @ fmt_d 2 (yr e mod 100) @ '' '' @ fmt_d 2 (mo e) @ '' '' @ fmt_d 2 (dy e)
      @ '' '' @ fmt_d 2 (hr e) @ '' '' @ fmt_d 2 (mn e)
      @ fmt_f ops 11 7 (sc e) @ ''  '' @ fmt_d 1 (flag e) @ fmt_d 3 (int (length sats)))
     @ concat (map (\<lambda>(k, sat).
                 rjust 3 sat
                 @ (if (k + 1) mod 12 = 0 \<and> k + 1 < length sats then nl @ blanks 32 else []))
               (enumerate 0 sats))
     @ nl"

fun find_value ::
  "(nat \<rightharpoonup> string option) \<Rightarrow> string list \<Rightarrow> string \<Rightarrow> nat list \<Rightarrow> string" where
  \<comment> \<open>the loop over \<open>enumerate(gps_types)\<close> for one \<open>rnx2_type\<close>, with the indices still to
      visit as last argument; returns what is appended to \<open>rnx2_values\<close>\<close>
  "find_value mapping values rnx2_type [] = blanks 16"
| "find_value mapping values rnx2_type (idx # rest) =
     (if dict_get mapping idx = Some rnx2_type
      then (if idx < length values then values ! idx else blanks 16)
      else find_value mapping values rnx2_type rest)"

definition rnx2_values_of ::
  "string list \<Rightarrow> string list \<Rightarrow> (nat \<rightharpoonup> string option) \<Rightarrow> string list \<Rightarrow> string list" where
  "rnx2_values_of gps_types rnx2_types mapping values =
     map (\<lambda>rnx2_type. find_value mapping values rnx2_type [0..<length gps_types]) rnx2_types"

definition obs_triple :: "string \<Rightarrow> string" where
  \<comment> \<open>\<open>f"{num_part}{lli}{sig}"\<close> for one value\<close>
  "obs_triple val =
     (let val_str = (if length val > 0 then rstrip val else []) in
      if length val_str \<ge> 14 then
        take 14 val_str
        @ (if length val_str > 14 then slice 14 15 val_str else '' '')
        @ (if length val_str > 15 then slice 15 16 val_str else '' '')
      else if length val_str > 0 then rjust 14 val_str @ '' '' @ '' ''
      else blanks 14 @ '' '' @ '' '')"

fun obs_lines :: "nat \<Rightarrow> string list \<Rightarrow> string \<Rightarrow> string list" where
  \<comment> \<open>the loop over \<open>enumerate(rnx2_values)\<close> from position \<open>k\<close> on, with the pending
      \<open>obs_line\<close>, and the \<open>if obs_line\<close> after it; returns the strings written\<close>
  "obs_lines k [] pending = (if pending \<noteq> [] then [pending @ nl] else [])"
| "obs_lines k (val # rest) pending =
     (let pending' = pending @ obs_triple val in
      if (k + 1) mod 5 = 0 then (pending' @ nl) # obs_lines (k + 1) rest []
      else obs_lines (k + 1) rest pending')"

definition sat_records ::
  "string list \<Rightarrow> string list \<Rightarrow> (nat \<rightharpoonup> string option) \<Rightarrow> string list \<Rightarrow> string list" where
  \<comment> \<open>the strings written for one satellite whose \<open>sat_data\<close> entry is \<open>values\<close>\<close>
  "sat_records gps_types rnx2_types mapping values =
     obs_lines 0 (rnx2_values_of gps_types rnx2_types mapping values) []"

definition sat_data_at :: "(string \<rightharpoonup> string list) \<Rightarrow> string \<Rightarrow> string list" where
  \<comment> \<open>\<open>sat_data[sat]\<close>; every member of \<open>sats\<close> was stored in \<open>sat_data\<close> by the pass of
      the collecting loop that appended it, so no \<open>KeyError\<close> arises\<close>
  "sat_data_at sat_data sat = (case sat_data sat of None \<Rightarrow> [] | Some values \<Rightarrow> values)"

definition epoch_text ::
  "'f float_ops \<Rightarrow> string list \<Rightarrow> string list \<Rightarrow> (nat \<rightharpoonup> string option) \<Rightarrow> 'f epoch
   \<Rightarrow> string list \<Rightarrow> (string \<rightharpoonup> string list) \<Rightarrow> string" where
  \<comment> \<open>everything written for an epoch with a non-empty \<open>sats\<close>\<close>
  "epoch_text ops gps_types rnx2_types mapping e sats sat_data =
     epoch_hdr ops e sats
     @ concat (map (\<lambda>sat. concat (sat_records gps_types rnx2_types mapping
                                     (sat_data_at sat_data sat))) sats)"

lemma collect_sats_mono:
  "collect_sats lines gps_types n i sats sat_data = (i', sats', sat_data') \<Longrightarrow> i \<le> i'"
proof (induction n arbitrary: i sats sat_data)
  case 0
  then show ?case by simp
next
  case (Suc n)
  show ?case
  proof (cases "i + 1 \<ge> length lines")
    case True
    with Suc.prems show ?thesis by simp
  next
    case False
    with Suc.prems Suc.IH [of "i + 1"] show ?thesis
      by (fastforce simp: Let_def split: if_splits)
  qed
qed

function convert_loop ::
  "'f float_ops \<Rightarrow> string list \<Rightarrow> string list \<Rightarrow> string list \<Rightarrow> (nat \<rightharpoonup> string option)
   \<Rightarrow> nat \<Rightarrow> string" where
  \<comment> \<open>\<open>while i < len(lines)\<close>; returns the text written to \<open>outf\<close> from \<open>i\<close> on\<close>
  "convert_loop ops lines gps_types rnx2_types mapping i =
     (if i < length lines then
        (let line = lines ! i in
         if startswith line ''>'' then
           (case parse_epoch ops line of
              None \<Rightarrow> convert_loop ops lines gps_types rnx2_types mapping (i + 1)
            | Some e \<Rightarrow>
                (case collect_sats lines gps_types (nat (num_sats e)) i [] Map.empty of
                   (i', sats, sat_data) \<Rightarrow>
                     if sats = []
                     then convert_loop ops lines gps_types rnx2_types mapping (i' + 1)
                     else epoch_text ops gps_types rnx2_types mapping e sats sat_data
                          @ convert_loop ops lines gps_types rnx2_types mapping (i' + 1)))
         else convert_loop ops lines gps_types rnx2_types mapping (i + 1))
      else [])"
  by pat_completeness auto
termination
proof (relation "measure (\<lambda>(ops, lines, gps_types, rnx2_types, mapping, i). length lines - i)")
  show "wf (measure (\<lambda>(ops, lines, gps_types, rnx2_types, mapping, i). length lines - i))"
    by simp
qed (auto dest!: collect_sats_mono [OF sym])

declare convert_loop.simps [simp del]

definition convert_data ::
  "'f float_ops \<Rightarrow> string list \<Rightarrow> nat \<Rightarrow> 'f header \<Rightarrow> string list
   \<Rightarrow> (nat \<rightharpoonup> string option) \<Rightarrow> string" where
  "convert_data ops lines data_start header rnx2_types mapping =
     convert_loop ops lines (gps_types_of header) rnx2_types mapping data_start"

section \<open>\<open>convert_rinex3_to_rinex2\<close>\<close>

text \<open>
  The input file is its text; the result is an exception, or the returned flag together
  with the text of the output file, \<open>None\<close> when the output file was never opened.  No
  exception arises once the output file is open.  Reading is in universal-newlines mode.
\<close>

fun universal_newlines :: "string \<Rightarrow> string" where
  "universal_newlines [] = []"
| "universal_newlines [c] = (if c = CHR 0x0D then nl else [c])"
| "universal_newlines (c # d # cs) =
     (if c = CHR 0x0D \<and> d = CHR 0x0A then CHR 0x0A # universal_newlines cs
      else if c = CHR 0x0D then CHR 0x0A # universal_newlines (d # cs)
      else c # universal_newlines (d # cs))"

fun lines_from :: "string \<Rightarrow> string \<Rightarrow> string list" where
  \<comment> \<open>split after each newline, with the line read so far as first argument\<close>
  "lines_from cur [] = (if cur = [] then [] else [cur])"
| "lines_from cur (c # cs) =
     (if c = CHR 0x0A then (cur @ [c]) # lines_from [] cs else lines_from (cur @ [c]) cs)"

definition readlines :: "string \<Rightarrow> string list" where
  "readlines content = lines_from [] (universal_newlines content)"

definition convert_rinex3_to_rinex2 ::
  "'f float_ops \<Rightarrow> string \<Rightarrow> py_error + (bool \<times> string option)" where
  "convert_rinex3_to_rinex2 ops input_file =
     (let lines = readlines input_file in
      case lines of
        [] \<Rightarrow> Inl IndexError
      | line0 # _ \<Rightarrow>
          if \<not> startswith (strip (slice 0 9 line0)) ''3'' then Inr (True, Some input_file)
          else
            (case parse_rinex3_header ops lines of
               Inl e \<Rightarrow> Inl e
             | Inr header \<Rightarrow>
                 (case build_obs_type_mapping header of
                    (rnx2_types, mapping) \<Rightarrow>
                      if rnx2_types = [] then Inr (False, None)
                      else Inr (True, Some (write_rinex2_header ops header rnx2_types
                             @ convert_data ops lines (header_end_line header + 1)
                                 header rnx2_types mapping)))))"

section \<open>Notions used in the statements\<close>

fun first_index :: "('a \<Rightarrow> bool) \<Rightarrow> 'a list \<Rightarrow> nat" where
  \<comment> \<open>the position of the first element that satisfies \<open>P\<close>, the length if there is none\<close>
  "first_index P [] = 0"
| "first_index P (x # xs) = (if P x then 0 else Suc (first_index P xs))"

definition first_source :: "string list \<Rightarrow> string \<Rightarrow> nat" where
  \<comment> \<open>the first position in \<open>gps_types\<close> whose code the table translates to \<open>rnx2_type\<close>\<close>
  "first_source gps_types rnx2_type =
     first_index (\<lambda>c. OBS_MAPPING c = Some rnx2_type) gps_types"

fun new_codes :: "string set \<Rightarrow> string list \<Rightarrow> string list" where
  \<comment> \<open>the translations of \<open>cs\<close> that are not in \<open>seen\<close>, each once, in order of appearance\<close>
  "new_codes seen [] = []"
| "new_codes seen (c # cs) =
     (case OBS_MAPPING c of
        None \<Rightarrow> new_codes seen cs
      | Some t \<Rightarrow> if t \<notin> seen then t # new_codes (insert t seen) cs else new_codes seen cs)"

subsection \<open>A decimal stand-in for floats, to run the model on concrete files\<close>

text \<open>
  It reads plain decimal numerals (an optional sign, digits, an optional point) as a
  mantissa with a number of decimals, and prints them in fixed point, rounding half to
  even.  The theorems below do not depend on it: they hold for every \<open>float_ops\<close>.
\<close>

definition dec_float :: "string \<Rightarrow> (int \<times> nat) option" where
  "dec_float s =
     (let t = strip s;
          neg = (take 1 t = ''-'');
          body = (if take 1 t = ''-'' \<or> take 1 t = ''+'' then drop 1 t else t);
          ip = takeWhile (\<lambda>c. c \<noteq> CHR ''.'') body;
          fp = drop 1 (dropWhile (\<lambda>c. c \<noteq> CHR ''.'') body)
      in if list_all is_digit ip \<and> list_all is_digit fp \<and> (ip \<noteq> [] \<or> fp \<noteq> [])
         then Some ((if neg then - dec_value (ip @ fp) else dec_value (ip @ fp)), length fp)
         else None)"

definition dec_fmt :: "nat \<Rightarrow> nat \<Rightarrow> int \<times> nat \<Rightarrow> string" where
  "dec_fmt w p x =
     (case x of (m, d) \<Rightarrow>
        let a = nat \<bar>m\<bar>;
            q = (if d \<le> p then a * 10 ^ (p - d)
                 else let k = 10 ^ (d - p); lo = a div k; r = a mod k
                      in if 2 * r > k \<or> (2 * r = k \<and> odd lo) then lo + 1 else lo);
            frac = str_nat (q mod 10 ^ p)
        in rjust w ((if m < 0 then ''-'' else []) @ str_nat (q div 10 ^ p)
                    @ (if p = 0 then []
                       else ''.'' @ replicate (p - length frac) CHR ''0'' @ frac)))"

definition decimal_ops :: "(int \<times> nat) float_ops" where
  "decimal_ops = \<lparr> py_float = dec_float, fmt_f = dec_fmt, lit_0 = (0, 1), lit_30 = (300, 1) \<rparr>"

subsection \<open>Concrete inputs\<close>

definition header_six_codes :: "(int \<times> nat) header" where
  \<comment> \<open>six GPS codes: two pairs share a target, one has no translation\<close>
  "header_six_codes = (default_header decimal_ops)
     \<lparr> obs_types := [''G'' \<mapsto> [''C1C'', ''L1C'', ''C1W'', ''X9Z'', ''L1W'', ''C1X'']] \<rparr>"

section \<open>Evaluation\<close>

lemma replicate_numeral_eval: "replicate (numeral k) x = x # replicate (pred_numeral k) x"
  by (simp add: numeral_eq_Suc)

lemmas evals = is_space_def is_digit_def lstrip_def rstrip_def strip_def slice_def startswith_def
  ljust_def rjust_def split_def py_int_def digit_val_def dec_value_def str_int_def fmt_d_def
  str_nat.simps OBS_MAPPING_def OBS_MAPPING_items_def dict_get_def gps_types_of_def
  build_obs_type_mapping_def label_of_def default_header_def float3_def py_upto_def
  continuation_loop.simps header_step_def header_loop.simps parse_rinex3_header_def
  obs_line_def types_of_observ_def write_rinex2_header_def parse_epoch_def slice_values_def
  epoch_hdr_def rnx2_values_of_def obs_triple_def sat_records_def sat_data_at_def epoch_text_def
  convert_loop.simps convert_data_def readlines_def convert_rinex3_to_rinex2_def
  dec_float_def dec_fmt_def decimal_ops_def Let_def enumerate_eq_zip replicate_numeral_eval

section \<open>The code mapper\<close>

lemma OBS_MAPPING_nonempty: "OBS_MAPPING c = Some t \<Longrightarrow> t \<noteq> []"
  unfolding OBS_MAPPING_def OBS_MAPPING_items_def
  by (drule map_of_SomeD) auto

lemma mapping_loop_fst:
  "fst (mapping_loop idx cs ts seen m) = ts @ new_codes seen cs"
  by (induction cs arbitrary: idx ts seen m)
     (auto split: option.splits dest: OBS_MAPPING_nonempty)

lemma mapping_loop_snd:
  "snd (mapping_loop idx cs ts seen m) i =
     (if idx \<le> i \<and> i < idx + length cs then Some (OBS_MAPPING (cs ! (i - idx))) else m i)"
proof (induction cs arbitrary: idx ts seen m i)
  case Nil
  then show ?case by auto
next
  case (Cons c cs)
  show ?case
    by (cases "i = idx") (auto simp: Cons.IH nth_Cons' Suc_diff_le split: option.splits)
qed

lemma set_new_codes:
  "set (new_codes seen cs) = {t. \<exists>c\<in>set cs. OBS_MAPPING c = Some t} - seen"
  by (induction cs arbitrary: seen) (auto split: option.splits)

lemma distinct_new_codes: "distinct (new_codes seen cs)"
  by (induction cs arbitrary: seen) (auto simp: set_new_codes split: option.splits)

lemma sorted_new_codes:
  "sorted_wrt (<) (map (first_source cs) (new_codes seen cs))"
proof (induction cs arbitrary: seen)
  case Nil
  then show ?case by simp
next
  case (Cons c cs)
  have shift: "map (first_source (c # cs)) (new_codes s cs) =
      map (\<lambda>t. Suc (first_source cs t)) (new_codes s cs)"
    if "\<And>t. OBS_MAPPING c = Some t \<Longrightarrow> t \<in> s" for s
    using that by (auto simp: first_source_def set_new_codes)
  have mono: "sorted_wrt (<) (map (\<lambda>t. Suc (first_source cs t)) (new_codes s cs))" for s
    using Cons.IH [of s] by (simp add: sorted_wrt_map)
  show ?case
  proof (cases "OBS_MAPPING c")
    case None
    have "new_codes seen (c # cs) = new_codes seen cs" using None by simp
    moreover have "map (first_source (c # cs)) (new_codes seen cs) =
        map (\<lambda>t. Suc (first_source cs t)) (new_codes seen cs)"
      by (rule shift) (simp add: None)
    ultimately show ?thesis using mono [of seen] by (simp only:)
  next
    case (Some t)
    show ?thesis
    proof (cases "t \<in> seen")
      case True
      have "new_codes seen (c # cs) = new_codes seen cs" using Some True by simp
      moreover have "map (first_source (c # cs)) (new_codes seen cs) =
          map (\<lambda>t. Suc (first_source cs t)) (new_codes seen cs)"
        by (rule shift) (simp add: Some True)
      ultimately show ?thesis using mono [of seen] by (simp only:)
    next
      case False
      have new: "new_codes seen (c # cs) = t # new_codes (insert t seen) cs"
        using Some False by simp
      have zero: "first_source (c # cs) t = 0" using Some by (simp add: first_source_def)
      have rest: "map (first_source (c # cs)) (new_codes (insert t seen) cs) =
          map (\<lambda>t. Suc (first_source cs t)) (new_codes (insert t seen) cs)"
        by (rule shift) (simp add: Some)
      show ?thesis
        using mono [of "insert t seen"] by (simp add: new zero rest del: new_codes.simps)
    qed
  qed
qed

lemma build_obs_type_mapping_fst:
  "fst (build_obs_type_mapping h) = new_codes {} (gps_types_of h)"
  by (simp add: build_obs_type_mapping_def mapping_loop_fst)

section \<open>The claims\<close>

text \<open>
  C5.  For every parsed header, the target code list of \<open>_build_obs_type_mapping\<close> has no
  duplicates; its codes stand in the order of the first source code that translates to
  each of them (later source codes with the same translation add no column); it holds
  exactly the translations of the declared GPS codes, so that a code without an entry in
  the table contributes no column; and the index mapping records, for every source
  position, the translation of the code declared there (none for a code without entry).
\<close>

theorem build_obs_type_mapping_first_occurrence:
  "distinct (fst (build_obs_type_mapping h)) \<and>
   sorted_wrt (<) (map (first_source (gps_types_of h)) (fst (build_obs_type_mapping h))) \<and>
   set (fst (build_obs_type_mapping h)) =
     {t. \<exists>c \<in> set (gps_types_of h). OBS_MAPPING c = Some t} \<and>
   (\<forall>idx < length (gps_types_of h).
      snd (build_obs_type_mapping h) idx = Some (OBS_MAPPING (gps_types_of h ! idx)))"
  by (simp add: build_obs_type_mapping_def mapping_loop_fst mapping_loop_snd
      distinct_new_codes sorted_new_codes set_new_codes)

theorem build_obs_type_mapping_first_occurrence_witness:
  "3 < length (gps_types_of header_six_codes) \<and>
   snd (build_obs_type_mapping header_six_codes) 3 = Some None \<and>
   distinct (fst (build_obs_type_mapping header_six_codes)) \<and>
   fst (build_obs_type_mapping header_six_codes) = [''C1'', ''L1'', ''P1'']"
proof -
  have len: "3 < length (gps_types_of header_six_codes)"
    by (simp add: header_six_codes_def gps_types_of_def)
  have code: "OBS_MAPPING (gps_types_of header_six_codes ! 3) = None"
    by (simp add: header_six_codes_def gps_types_of_def OBS_MAPPING_def OBS_MAPPING_items_def)
  have val: "fst (build_obs_type_mapping header_six_codes) = [''C1'', ''L1'', ''P1'']"
    by (simp add: header_six_codes_def evals split del: if_split)
  from build_obs_type_mapping_first_occurrence [of header_six_codes] len code val
  show ?thesis by auto
qed

end
